theory Spec2Isabelle
  imports Complex_Main
begin

chapter \<open>The response normalisation layer of splunk-mcp\<close>

text \<open>
  The repository adapts two REST upstreams (Splunk and SignalFx) to tool calls. This theory
  embeds the normalisers of \<^verbatim>\<open>signalFx-client.ts\<close> and \<^verbatim>\<open>splunk-client.ts\<close>.
  Console logging is left out; every \<^verbatim>\<open>throw\<close> is a value \<open>Inl e\<close>.
\<close>

section \<open>SignalFx client: numbers\<close>

text \<open>
  A JavaScript number is an IEEE 754 double. A finite double is modelled by the real
  number it denotes, \<open>Fin x\<close>; the two infinities and \<open>NaN\<close> are values of their own.
  (The two zeros are one value: the only place where the code could tell them apart is
  \<^verbatim>\<open>x || 0\<close>, where both are falsy and the result is \<open>0\<close>.) A number read from a JSON
  body is finite.
\<close>

datatype number = Fin real | PInf | NInf | NaN

fun num_lt :: "number \<Rightarrow> number \<Rightarrow> bool" where
  "num_lt NaN _ = False"
| "num_lt _ NaN = False"
| "num_lt (Fin a) (Fin b) = (a < b)"
| "num_lt NInf NInf = False"
| "num_lt NInf _ = True"
| "num_lt _ NInf = False"
| "num_lt PInf _ = False"
| "num_lt _ PInf = True"

text \<open>
  The sum and the difference of two doubles are the exact result rounded to the nearest
  double, a tie going to the double whose last significand bit is zero
  (\<open>roundTiesToEven\<close>). \<open>binade a\<close> is the exponent \<open>e\<close> with \<open>2^e \<le> a < 2^(e+1)\<close>;
  a double has 53 significand bits, so in that binade the doubles are \<open>2^(e-52)\<close> apart,
  and below \<open>2^(-1022)\<close>, among the subnormal numbers, they are \<open>2^(-1074)\<close> apart. A result
  that rounds to \<open>2^1024\<close> or more overflows to an infinity.
\<close>

fun bit_length :: "nat \<Rightarrow> nat" where
  "bit_length n = (if n = 0 then 0 else Suc (bit_length (n div 2)))"

definition pow2 :: "int \<Rightarrow> real" where
  "pow2 e = (if 0 \<le> e then 2 ^ nat e else 1 / 2 ^ nat (- e))"

definition binade :: "real \<Rightarrow> int" where
  "binade a =
     (if 1 \<le> a then int (bit_length (nat \<lfloor>a\<rfloor>)) - 1
      else - int (bit_length (nat (\<lceil>1 / a\<rceil> - 1))))"

definition round_half_even :: "real \<Rightarrow> int" where
  "round_half_even x =
     (let f = \<lfloor>x\<rfloor>; r = x - of_int f
      in if r < 1 / 2 then f else if 1 / 2 < r then f + 1 else if even f then f else f + 1)"

definition round_double :: "real \<Rightarrow> number" where
  "round_double q =
     (if q = 0 then Fin 0
      else
        let a = \<bar>q\<bar>;
            e = max (binade a) (- 1022);
            ulp = pow2 (e - 52);
            m = round_half_even (a / ulp)
        in if 1024 \<le> e \<or> (e = 1023 \<and> m = 2 ^ 53) then (if 0 < q then PInf else NInf)
           else Fin ((if 0 < q then 1 else - 1) * of_int m * ulp))"

fun num_add :: "number \<Rightarrow> number \<Rightarrow> number" where
  "num_add NaN _ = NaN"
| "num_add _ NaN = NaN"
| "num_add (Fin a) (Fin b) = round_double (a + b)"
| "num_add PInf NInf = NaN"
| "num_add NInf PInf = NaN"
| "num_add PInf _ = PInf"
| "num_add NInf _ = NInf"
| "num_add _ PInf = PInf"
| "num_add _ NInf = NInf"

fun num_sub :: "number \<Rightarrow> number \<Rightarrow> number" where
  "num_sub NaN _ = NaN"
| "num_sub _ NaN = NaN"
| "num_sub (Fin a) (Fin b) = round_double (a - b)"
| "num_sub PInf PInf = NaN"
| "num_sub NInf NInf = NaN"
| "num_sub PInf _ = PInf"
| "num_sub NInf _ = NInf"
| "num_sub _ PInf = NInf"
| "num_sub _ NInf = PInf"

text \<open>
  \<^verbatim>\<open>Math.min(...xs)\<close>: the result starts at \<open>+Infinity\<close>; a \<open>NaN\<close> argument makes the
  result \<open>NaN\<close>; otherwise a smaller argument replaces the result. \<^verbatim>\<open>Math.max\<close> is the
  mirror image, starting at \<open>-Infinity\<close>.
\<close>

fun min_step :: "number \<Rightarrow> number \<Rightarrow> number" where
  "min_step x lowest =
     (if lowest = NaN \<or> x = NaN then NaN else if num_lt x lowest then x else lowest)"

fun max_step :: "number \<Rightarrow> number \<Rightarrow> number" where
  "max_step x highest =
     (if highest = NaN \<or> x = NaN then NaN else if num_lt highest x then x else highest)"

definition Math_min :: "number list \<Rightarrow> number" where
  "Math_min xs = fold min_step xs PInf"

definition Math_max :: "number list \<Rightarrow> number" where
  "Math_max xs = fold max_step xs NInf"

section \<open>SignalFx client: traces\<close>

text \<open>
  A raw span is the JSON object the upstream sends; an absent key reads as
  \<^verbatim>\<open>undefined\<close>, here \<open>None\<close>. The casts \<^verbatim>\<open>as string\<close> and \<^verbatim>\<open>as number\<close> of
  the source fix the type of each field; a number in a JSON body is a finite double, given
  here by its value.
\<close>

datatype tag_value = TagStr string | TagNum int | TagBool bool

record raw_log =
  rl_timestamp :: "real option"
  rl_fields :: "(string \<times> string) list option"

record raw_span =
  rs_spanId :: "string option"
  rs_traceId :: "string option"
  rs_parentSpanId :: "string option"
  rs_operationName :: "string option"
  rs_serviceName :: "string option"
  rs_startTime :: "real option"
  rs_duration :: "real option"
  rs_tags :: "(string \<times> tag_value) list option"
  rs_logs :: "raw_log list option"
  rs_status :: "string option"
  rs_errorMessage :: "string option"

record raw_trace =
  rt_traceId :: "string option"
  rt_spans :: "raw_span list option"

record span_log =
  log_timestamp :: real
  log_fields :: "(string \<times> string) list"

record TraceSpan =
  spanId :: "string option"
  traceId :: "string option"
  parentSpanId :: "string option"
  operationName :: "string option"
  serviceName :: "string option"
  startTime :: real
  duration :: real
  tags :: "(string \<times> tag_value) list"
  logs :: "span_log list option"
  status :: string
  errorMessage :: "string option"

record Trace =
  t_traceId :: string
  t_spans :: "TraceSpan list"
  t_startTime :: number
  t_duration :: number
  t_services :: "string option list"
  t_operationName :: "string option"

text \<open>
  \<^verbatim>\<open>x || d\<close> on an optional number, a double or one of the integer parameters:
  \<open>undefined\<close> and \<open>0\<close> are falsy.
\<close>

definition num_or :: "'a::zero option \<Rightarrow> 'a \<Rightarrow> 'a" where
  "num_or x d = (case x of None \<Rightarrow> d | Some n \<Rightarrow> if n = 0 then d else n)"

text \<open>\<^verbatim>\<open>x || d\<close> on an optional string: \<open>undefined\<close> and \<open>""\<close> are falsy.\<close>

definition str_or :: "string option \<Rightarrow> string \<Rightarrow> string" where
  "str_or x d = (case x of None \<Rightarrow> d | Some s \<Rightarrow> if s = [] then d else s)"

text \<open>\<^verbatim>\<open>x || d\<close> on an optional object or array: only \<open>undefined\<close> is falsy.\<close>

definition obj_or :: "'a option \<Rightarrow> 'a \<Rightarrow> 'a" where
  "obj_or x d = (case x of None \<Rightarrow> d | Some v \<Rightarrow> v)"

definition parseLog :: "raw_log \<Rightarrow> span_log" where
  "parseLog l = \<lparr> log_timestamp = num_or (rl_timestamp l) 0, log_fields = obj_or (rl_fields l) [] \<rparr>"

definition parseSpan :: "raw_span \<Rightarrow> TraceSpan" where
  "parseSpan s =
     \<lparr> spanId = rs_spanId s,
       traceId = rs_traceId s,
       parentSpanId = rs_parentSpanId s,
       operationName = rs_operationName s,
       serviceName = rs_serviceName s,
       startTime = num_or (rs_startTime s) 0,
       duration = num_or (rs_duration s) 0,
       tags = obj_or (rs_tags s) [],
       logs = map_option (map parseLog) (rs_logs s),
       status = str_or (rs_status s) ''unset'',
       errorMessage = rs_errorMessage s \<rparr>"

text \<open>
  \<^verbatim>\<open>Array.from(new Set(xs))\<close>: a \<^verbatim>\<open>Set\<close> keeps its members in insertion order and
  ignores the insertion of a member it already has.
\<close>

definition set_add :: "'a \<Rightarrow> 'a list \<Rightarrow> 'a list" where
  "set_add x members = (if x \<in> set members then members else members @ [x])"

definition Array_from_Set :: "'a list \<Rightarrow> 'a list" where
  "Array_from_Set xs = fold set_add xs []"

text \<open>\<^verbatim>\<open>spans[0]?.operationName\<close>\<close>

definition first_operationName :: "TraceSpan list \<Rightarrow> string option" where
  "first_operationName spans = (case spans of [] \<Rightarrow> None | s # _ \<Rightarrow> operationName s)"

text \<open>The end of a span, \<^verbatim>\<open>s.startTime + s.duration\<close>: a sum of two doubles.\<close>

definition span_end :: "TraceSpan \<Rightarrow> number" where
  "span_end s = num_add (Fin (startTime s)) (Fin (duration s))"

definition parseTrace :: "raw_trace \<Rightarrow> Trace" where
  "parseTrace traceData =
     (let spans = map parseSpan (obj_or (rt_spans traceData) []);
          services = Array_from_Set (map serviceName spans);
          start_time = Math_min (map (\<lambda>s. Fin (startTime s)) spans @ [PInf]);
          end_time = Math_max (map span_end spans @ [NInf])
      in \<lparr> t_traceId = str_or (rt_traceId traceData) [],
           t_spans = spans,
           t_startTime = start_time,
           t_duration = num_sub end_time start_time,
           t_services = services,
           t_operationName = first_operationName spans \<rparr>)"

text \<open>
  The property the specification gives for the \<open>services\<close> field, written out on its own:
  the elements of \<open>xs\<close> at the positions where they occur for the first time, in order.
\<close>

definition first_seen :: "'a list \<Rightarrow> 'a list" where
  "first_seen xs = [xs ! i. i \<leftarrow> [0..<length xs], xs ! i \<notin> set (take i xs)]"

text \<open>
  The order of the numbers other than \<open>NaN\<close>, and what it is for a number to be the
  greatest of a list: it is in the list and no member exceeds it.
\<close>

fun num_le :: "number \<Rightarrow> number \<Rightarrow> bool" where
  "num_le NaN _ = False"
| "num_le _ NaN = False"
| "num_le NInf _ = True"
| "num_le _ PInf = True"
| "num_le (Fin a) (Fin b) = (a \<le> b)"
| "num_le _ _ = False"

definition is_greatest :: "number \<Rightarrow> number list \<Rightarrow> bool" where
  "is_greatest m xs = (m \<in> set xs \<and> (\<forall>x \<in> set xs. num_le x m))"

section \<open>SignalFx client: trace search\<close>

datatype error = Error string | TypeError string | SyntaxError string

record TraceSearchCriteria =
  c_service :: "string option"
  c_operation :: "string option"
  c_tags :: "(string \<times> tag_value) list option"
  c_minDuration :: "int option"
  c_maxDuration :: "int option"
  c_error :: "bool option"
  c_limit :: "int option"
  c_offset :: "int option"
  c_startTime :: "int option"
  c_endTime :: "int option"

text \<open>
  The query is a \<^verbatim>\<open>Record<string, unknown>\<close>: an association list in insertion order.
  \<open>obj_set\<close> is the assignment \<^verbatim>\<open>query[k] = v\<close>.
\<close>

datatype query_value =
  QStr string | QNum int | QBool bool | QTags "(string \<times> tag_value) list"

type_synonym query = "(string \<times> query_value) list"

definition obj_set :: "string \<Rightarrow> 'v \<Rightarrow> (string \<times> 'v) list \<Rightarrow> (string \<times> 'v) list" where
  "obj_set k v obj =
     (if k \<in> fst ` set obj then map (\<lambda>(k', v'). if k' = k then (k', v) else (k', v')) obj
      else obj @ [(k, v)])"

definition buildTraceQuery :: "TraceSearchCriteria \<Rightarrow> query" where
  "buildTraceQuery criteria =
     (let query = [];
          query = (case c_service criteria of
                     None \<Rightarrow> query
                   | Some s \<Rightarrow> if s \<noteq> [] then obj_set ''service'' (QStr s) query else query);
          query = (case c_operation criteria of
                     None \<Rightarrow> query
                   | Some s \<Rightarrow> if s \<noteq> [] then obj_set ''operation'' (QStr s) query else query);
          query = (case c_tags criteria of
                     None \<Rightarrow> query
                   | Some t \<Rightarrow> obj_set ''tags'' (QTags t) query);
          query = (case c_minDuration criteria of
                     None \<Rightarrow> query
                   | Some n \<Rightarrow> obj_set ''minDuration'' (QNum n) query);
          query = (case c_maxDuration criteria of
                     None \<Rightarrow> query
                   | Some n \<Rightarrow> obj_set ''maxDuration'' (QNum n) query);
          query = (case c_error criteria of
                     None \<Rightarrow> query
                   | Some b \<Rightarrow> obj_set ''error'' (QBool b) query);
          query = (case c_startTime criteria of
                     None \<Rightarrow> query
                   | Some n \<Rightarrow> obj_set ''startTime'' (QNum n) query);
          query = (case c_endTime criteria of
                     None \<Rightarrow> query
                   | Some n \<Rightarrow> obj_set ''endTime'' (QNum n) query);
          query = obj_set ''limit'' (QNum (num_or (c_limit criteria) 100)) query;
          query = obj_set ''offset'' (QNum (num_or (c_offset criteria) 0)) query
      in query)"

text \<open>
  The body of the upstream's answer to \<^verbatim>\<open>POST /traces/search\<close>, and the result record.
  The HTTP client is a function from the request to a failure or a body.
\<close>

record search_response =
  sr_traces :: "raw_trace list option"
  sr_totalCount :: "int option"

record TraceSearchResult =
  traces :: "Trace list"
  totalCount :: int
  limit :: int
  offset :: int

definition searchTraces ::
  "(string \<Rightarrow> query \<Rightarrow> error + search_response) \<Rightarrow> TraceSearchCriteria
     \<Rightarrow> error + TraceSearchResult" where
  "searchTraces post criteria =
     (let query = buildTraceQuery criteria in
      case post ''/traces/search'' query of
        Inl e \<Rightarrow> Inl e
      | Inr data \<Rightarrow>
          let traces = map parseTrace (obj_or (sr_traces data) [])
          in Inr \<lparr> traces = traces,
                   totalCount = num_or (sr_totalCount data) (int (length traces)),
                   limit = num_or (c_limit criteria) 100,
                   offset = num_or (c_offset criteria) 0 \<rparr>)"

text \<open>Truthiness of an optional number, as \<^verbatim>\<open>||\<close> tests it.\<close>

definition truthy_num :: "int option \<Rightarrow> bool" where
  "truthy_num x = (case x of None \<Rightarrow> False | Some n \<Rightarrow> n \<noteq> 0)"

section \<open>Splunk client: JSON values\<close>

text \<open>
  The Splunk client reads untyped response bodies (\<^verbatim>\<open>any\<close>), so the model works on JSON
  values. \<open>None\<close> of type \<open>jsval\<close> is \<^verbatim>\<open>undefined\<close>. An object is its list of
  members in key order, with distinct keys, as \<^verbatim>\<open>JSON.parse\<close> builds it. Numbers are
  the integers, strings are sequences of code units below 256.
\<close>

datatype json =
  JNull | JBool bool | JNum int | JStr string | JArr "json list" | JObj "(string \<times> json) list"

type_synonym jsval = "json option"

fun truthy :: "jsval \<Rightarrow> bool" where
  "truthy None = False"
| "truthy (Some JNull) = False"
| "truthy (Some (JBool b)) = b"
| "truthy (Some (JNum n)) = (n \<noteq> 0)"
| "truthy (Some (JStr s)) = (s \<noteq> [])"
| "truthy (Some (JArr xs)) = True"
| "truthy (Some (JObj kvs)) = True"

text \<open>\<^verbatim>\<open>v || d\<close> where \<open>d\<close> is a literal of the source.\<close>

definition or_else :: "jsval \<Rightarrow> json \<Rightarrow> json" where
  "or_else v d = (case v of None \<Rightarrow> d | Some j \<Rightarrow> if truthy v then j else d)"

definition bindE :: "error + 'a \<Rightarrow> ('a \<Rightarrow> error + 'b) \<Rightarrow> error + 'b" where
  "bindE m f = (case m of Inl e \<Rightarrow> Inl e | Inr x \<Rightarrow> f x)"

text \<open>
  The property read \<^verbatim>\<open>v.k\<close>. Reading from \<^verbatim>\<open>undefined\<close> or \<^verbatim>\<open>null\<close> throws a
  \<^verbatim>\<open>TypeError\<close>. The client reads fixed names only (\<open>entry\<close>, \<open>content\<close>, \<open>name\<close>,
  \<open>length\<close>, ...); of these, arrays and strings have \<open>length\<close>, and no other one is found
  on a primitive or an array, with one exception that the model leaves out: \<open>search\<close> on a
  string is a method of the string prototype.
\<close>

fun get_prop :: "string \<Rightarrow> jsval \<Rightarrow> error + jsval" where
  "get_prop k None = Inl (TypeError (''Cannot read properties of undefined (reading '' @ k @ '')''))"
| "get_prop k (Some JNull) = Inl (TypeError (''Cannot read properties of null (reading '' @ k @ '')''))"
| "get_prop k (Some (JObj kvs)) = Inr (map_of kvs k)"
| "get_prop k (Some (JArr xs)) = Inr (if k = ''length'' then Some (JNum (int (length xs))) else None)"
| "get_prop k (Some (JStr s)) = Inr (if k = ''length'' then Some (JNum (int (length s))) else None)"
| "get_prop k (Some (JBool b)) = Inr None"
| "get_prop k (Some (JNum n)) = Inr None"

text \<open>The optional read \<^verbatim>\<open>v?.k\<close>.\<close>

definition opt_prop :: "string \<Rightarrow> jsval \<Rightarrow> error + jsval" where
  "opt_prop k v = (if v = None \<or> v = Some JNull then Inr None else get_prop k v)"

text \<open>The element read \<^verbatim>\<open>v[0]\<close>.\<close>

fun index0 :: "jsval \<Rightarrow> error + jsval" where
  "index0 None = Inl (TypeError ''Cannot read properties of undefined (reading 0)'')"
| "index0 (Some JNull) = Inl (TypeError ''Cannot read properties of null (reading 0)'')"
| "index0 (Some (JArr xs)) = Inr (case xs of [] \<Rightarrow> None | x # _ \<Rightarrow> Some x)"
| "index0 (Some (JStr s)) = Inr (case s of [] \<Rightarrow> None | c # _ \<Rightarrow> Some (JStr [c]))"
| "index0 (Some (JObj kvs)) = Inr (map_of kvs ''0'')"
| "index0 (Some (JBool b)) = Inr None"
| "index0 (Some (JNum n)) = Inr None"

text \<open>
  \<^verbatim>\<open>for (const x of v)\<close>: arrays yield their elements, strings their characters, and
  every other value is not iterable.
\<close>

fun for_of :: "json \<Rightarrow> error + json list" where
  "for_of (JArr xs) = Inr xs"
| "for_of (JStr s) = Inr (map (\<lambda>c. JStr [c]) s)"
| "for_of _ = Inl (TypeError ''value is not iterable'')"

text \<open>
  \<^verbatim>\<open>v.length > 0\<close>. The length of an array or a string is a number. A JSON object may
  carry a member called \<open>length\<close>; the comparison is modelled for a number, a boolean and
  \<^verbatim>\<open>null\<close>, and a string, array or object there (which JavaScript would coerce) counts
  as not greater than zero.
\<close>

fun gt_zero :: "jsval \<Rightarrow> bool" where
  "gt_zero (Some (JNum n)) = (0 < n)"
| "gt_zero (Some (JBool b)) = b"
| "gt_zero _ = False"

text \<open>
  \<^verbatim>\<open>String(v)\<close> and the conversion inside a template literal. An integer prints in
  decimal, an array as its elements joined by commas (\<^verbatim>\<open>null\<close> printing as nothing),
  a plain object as \<open>[object Object]\<close> (a member called \<open>toString\<close> or \<open>valueOf\<close>
  would change that and is outside the model).
\<close>

fun decimal :: "nat \<Rightarrow> string" where
  "decimal n =
     (if n < 10 then [char_of (48 + n)] else decimal (n div 10) @ [char_of (48 + n mod 10)])"

fun join_comma :: "string list \<Rightarrow> string" where
  "join_comma [] = []"
| "join_comma [s] = s"
| "join_comma (s # t # ss) = s @ '','' @ join_comma (t # ss)"

fun js_String :: "json \<Rightarrow> string" where
  "js_String JNull = ''null''"
| "js_String (JBool b) = (if b then ''true'' else ''false'')"
| "js_String (JNum n) = (if n < 0 then ''-'' @ decimal (nat (- n)) else decimal (nat n))"
| "js_String (JStr s) = s"
| "js_String (JArr xs) = join_comma (map (\<lambda>x. if x = JNull then [] else js_String x) xs)"
| "js_String (JObj kvs) = ''[object Object]''"

definition template :: "jsval \<Rightarrow> string" where
  "template v = (case v of None \<Rightarrow> ''undefined'' | Some j \<Rightarrow> js_String j)"

section \<open>Splunk client: strings\<close>

text \<open>
  \<^verbatim>\<open>trim\<close> removes white space and line terminators at both ends; below 256 these are
  the code units 9 to 13, 32 and 160. \<^verbatim>\<open>toLowerCase\<close> maps \<open>A\<close> to \<open>Z\<close> and the
  capital letters 192 to 222 (but 215, the multiplication sign) to the code unit 32 above.
\<close>

definition is_white_space :: "char \<Rightarrow> bool" where
  "is_white_space c = (of_char c \<in> {9, 10, 11, 12, 13, 32, 160 :: nat})"

definition trim :: "string \<Rightarrow> string" where
  "trim s = rev (dropWhile is_white_space (rev (dropWhile is_white_space s)))"

definition lower_char :: "char \<Rightarrow> char" where
  "lower_char c =
     (let n = of_char c :: nat
      in if (65 \<le> n \<and> n \<le> 90) \<or> (192 \<le> n \<and> n \<le> 222 \<and> n \<noteq> 215)
         then char_of (n + 32) else c)"

definition toLowerCase :: "string \<Rightarrow> string" where
  "toLowerCase s = map lower_char s"

definition startsWith :: "string \<Rightarrow> string \<Rightarrow> bool" where
  "startsWith s p = (take (length p) s = p)"

text \<open>
  \<^verbatim>\<open>s.replace(p, "")\<close> with a string pattern: the first occurrence of \<open>p\<close> is removed.
\<close>

fun remove_first :: "string \<Rightarrow> string \<Rightarrow> string" where
  "remove_first p [] = []"
| "remove_first p (c # cs) =
     (if startsWith (c # cs) p then drop (length p) (c # cs) else c # remove_first p cs)"

text \<open>
  \<^verbatim>\<open>xmlData.match(/<sid>([^<]+)<\/sid>/)\<close>: the leftmost position where \<open><sid>\<close> is
  followed by a non-empty run without \<open><\<close> and then by \<open></sid>\<close>; the run is the
  first group. The run is greedy and must be followed by \<open><\<close>, so it is the longest one.
\<close>

definition not_lt :: "char \<Rightarrow> bool" where
  "not_lt c = (c \<noteq> CHR ''<'')"

fun match_sid :: "string \<Rightarrow> string option" where
  "match_sid [] = None"
| "match_sid (c # cs) =
     (let run = takeWhile not_lt (drop 5 (c # cs));
          rest = dropWhile not_lt (drop 5 (c # cs))
      in if startsWith (c # cs) ''<sid>'' \<and> run \<noteq> [] \<and> startsWith rest ''</sid>''
         then Some run else match_sid cs)"

definition extractSid :: "json \<Rightarrow> error + string" where
  "extractSid xmlData =
     (case xmlData of
        JStr s \<Rightarrow>
          (case match_sid s of
             None \<Rightarrow> Inl (Error ''Failed to extract job SID from response'')
           | Some sid \<Rightarrow> Inr sid)
      | _ \<Rightarrow> Inl (TypeError ''xmlData.match is not a function''))"

text \<open>
  What the specification calls starting case-insensitively with the literal word
  \<open>search\<close>, written without a lower-casing function: the first six characters are the
  letters of the word, each in either case.
\<close>

fun starts_with_search_ci :: "string \<Rightarrow> bool" where
  "starts_with_search_ci (c1 # c2 # c3 # c4 # c5 # c6 # rest) =
     ((c1 = CHR ''s'' \<or> c1 = CHR ''S'') \<and> (c2 = CHR ''e'' \<or> c2 = CHR ''E'') \<and>
      (c3 = CHR ''a'' \<or> c3 = CHR ''A'') \<and> (c4 = CHR ''r'' \<or> c4 = CHR ''R'') \<and>
      (c5 = CHR ''c'' \<or> c5 = CHR ''C'') \<and> (c6 = CHR ''h'' \<or> c6 = CHR ''H''))"
| "starts_with_search_ci _ = False"

section \<open>Splunk client: requests\<close>

text \<open>
  The axios instance is a function from a request to a failure (the rejected promise) or
  the response body. A \<^verbatim>\<open>GET\<close> carries its path and query parameters, a \<^verbatim>\<open>POST\<close>
  its path and the form fields given to \<^verbatim>\<open>URLSearchParams\<close>.
\<close>

datatype request = GET string "(string \<times> json) list" | POST string "(string \<times> string) list"

type_synonym http_client = "request \<Rightarrow> error + json"

definition json_mode :: "(string \<times> json) list" where
  "json_mode = [(''output_mode'', JStr ''json'')]"

subsection \<open>searchSplunk\<close>

text \<open>
  The result is paired with the requests issued, in order. A parameter left out by the
  caller (\<open>None\<close>) takes its default.
\<close>

definition searchSplunk ::
  "http_client \<Rightarrow> string \<Rightarrow> string option \<Rightarrow> string option \<Rightarrow> int option
     \<Rightarrow> (error + json) \<times> request list" where
  "searchSplunk client searchQuery earliestTime latestTime maxResults =
     (if searchQuery = [] then (Inl (Error ''Search query cannot be empty''), [])
      else
        let strippedQuery = trim searchQuery;
            searchQuery =
              (if \<not> startsWith strippedQuery ''|'' \<and>
                  \<not> startsWith (toLowerCase strippedQuery) ''search''
               then ''search '' @ searchQuery else searchQuery);
            jobRequest = POST ''/services/search/jobs''
              [(''search'', searchQuery),
               (''earliest_time'', obj_or earliestTime ''-24h''),
               (''latest_time'', obj_or latestTime ''now''),
               (''exec_mode'', ''blocking'')]
        in case client jobRequest of
             Inl e \<Rightarrow> (Inl e, [jobRequest])
           | Inr jobData \<Rightarrow>
               (case extractSid jobData of
                  Inl e \<Rightarrow> (Inl e, [jobRequest])
                | Inr jobSid \<Rightarrow>
                    let resultsRequest = GET (''/services/search/jobs/'' @ jobSid @ ''/results'')
                          [(''output_mode'', JStr ''json''), (''count'', JNum (obj_or maxResults 100))]
                    in (case client resultsRequest of
                          Inl e \<Rightarrow> (Inl e, [jobRequest, resultsRequest])
                        | Inr data \<Rightarrow>
                            (bindE (get_prop ''results'' (Some data))
                               (\<lambda>results. Inr (or_else results (JArr []))),
                             [jobRequest, resultsRequest]))))"

subsection \<open>listIndexes and getIndexInfo\<close>

fun mapE :: "('a \<Rightarrow> error + 'b) \<Rightarrow> 'a list \<Rightarrow> error + 'b list" where
  "mapE f [] = Inr []"
| "mapE f (x # xs) = bindE (f x) (\<lambda>y. bindE (mapE f xs) (\<lambda>ys. Inr (y # ys)))"

text \<open>\<^verbatim>\<open>v.map(f)\<close>: only an array has the method.\<close>

fun array_map :: "(json \<Rightarrow> error + 'b) \<Rightarrow> jsval \<Rightarrow> error + 'b list" where
  "array_map f None = Inl (TypeError ''Cannot read properties of undefined (reading map)'')"
| "array_map f (Some JNull) = Inl (TypeError ''Cannot read properties of null (reading map)'')"
| "array_map f (Some (JArr xs)) = mapE f xs"
| "array_map f (Some _) = Inl (TypeError ''response.data.entry.map is not a function'')"

record IndexList =
  indexes :: "jsval list"

definition listIndexes :: "http_client \<Rightarrow> error + IndexList" where
  "listIndexes client =
     (case client (GET ''/services/data/indexes'' json_mode) of
        Inl e \<Rightarrow> Inl e
      | Inr data \<Rightarrow>
          bindE (get_prop ''entry'' (Some data)) (\<lambda>entry.
          bindE (array_map (\<lambda>entry. get_prop ''name'' (Some entry)) entry) (\<lambda>names.
          Inr \<lparr> indexes = names \<rparr>)))"

record SplunkIndex =
  ix_name :: string
  totalEventCount :: string
  currentDBSizeMB :: string
  maxTotalDataSizeMB :: string
  minTime :: string
  maxTime :: string

text \<open>\<^verbatim>\<open>String(content[k] || "0")\<close>\<close>

definition counter :: "string \<Rightarrow> jsval \<Rightarrow> error + string" where
  "counter k content = bindE (get_prop k content) (\<lambda>v. Inr (js_String (or_else v (JStr ''0''))))"

definition getIndexInfo :: "http_client \<Rightarrow> string \<Rightarrow> error + SplunkIndex" where
  "getIndexInfo client indexName =
     (case client (GET (''/services/data/indexes/'' @ indexName) json_mode) of
        Inl e \<Rightarrow> Inl e
      | Inr data \<Rightarrow>
          bindE (get_prop ''entry'' (Some data)) (\<lambda>entry.
          bindE (if truthy entry then get_prop ''length'' entry else Inr None) (\<lambda>len.
          if \<not> truthy entry \<or> len = Some (JNum 0)
          then Inl (Error (''Index not found: '' @ indexName))
          else
            bindE (index0 entry) (\<lambda>first.
            bindE (get_prop ''content'' first) (\<lambda>content.
            bindE (counter ''totalEventCount'' content) (\<lambda>tec.
            bindE (counter ''currentDBSizeMB'' content) (\<lambda>cur.
            bindE (counter ''maxTotalDataSizeMB'' content) (\<lambda>mx.
            bindE (counter ''minTime'' content) (\<lambda>mint.
            bindE (counter ''maxTime'' content) (\<lambda>maxt.
            Inr \<lparr> ix_name = indexName, totalEventCount = tec, currentDBSizeMB = cur,
                  maxTotalDataSizeMB = mx, minTime = mint, maxTime = maxt \<rparr>))))))))))"

subsection \<open>listSavedSearches\<close>

text \<open>
  A loop whose body sits in \<^verbatim>\<open>try { ... } catch { log }\<close>: an entry whose processing
  throws is skipped. (This holds where the handler itself cannot throw.)
\<close>

definition collect :: "('a \<Rightarrow> error + 'b) \<Rightarrow> 'a list \<Rightarrow> 'b list" where
  "collect f xs = concat (map (\<lambda>x. case f x of Inl e \<Rightarrow> [] | Inr y \<Rightarrow> [y]) xs)"

record SavedSearch =
  ss_name :: jsval
  ss_description :: json
  ss_search :: json

definition savedSearch_of :: "json \<Rightarrow> error + SavedSearch" where
  "savedSearch_of entry =
     bindE (get_prop ''name'' (Some entry)) (\<lambda>name.
     bindE (get_prop ''content'' (Some entry)) (\<lambda>content.
     bindE (opt_prop ''description'' content) (\<lambda>description.
     bindE (opt_prop ''search'' content) (\<lambda>search.
     Inr \<lparr> ss_name = name,
           ss_description = or_else description (JStr []),
           ss_search = or_else search (JStr []) \<rparr>))))"

definition listSavedSearches :: "http_client \<Rightarrow> error + SavedSearch list" where
  "listSavedSearches client =
     (case client (GET ''/services/saved/searches'' json_mode) of
        Inl e \<Rightarrow> Inl e
      | Inr data \<Rightarrow>
          bindE (get_prop ''entry'' (Some data)) (\<lambda>entry.
          bindE (for_of (or_else entry (JArr []))) (\<lambda>entries.
          Inr (collect savedSearch_of entries))))"

subsection \<open>getCurrentUser and listUsers\<close>

record SplunkUser =
  username :: jsval
  real_name :: json
  email :: json
  roles :: "json list"
  capabilities :: "json list"
  default_app :: json
  user_type :: json

text \<open>\<^verbatim>\<open>[v]\<close> for a value that is known to be there.\<close>

definition singleton :: "jsval \<Rightarrow> json list" where
  "singleton v = (case v of None \<Rightarrow> [] | Some j \<Rightarrow> [j])"

text \<open>
  The body of the \<^verbatim>\<open>try\<close> around the current-context request: the user name found
  there, when there is a truthy one.
\<close>

definition context_username :: "json \<Rightarrow> error + jsval" where
  "context_username contextData =
     bindE (get_prop ''entry'' (Some contextData)) (\<lambda>entry.
     if truthy entry
     then bindE (get_prop ''length'' entry) (\<lambda>len.
          if gt_zero len
          then bindE (index0 entry) (\<lambda>first.
               bindE (get_prop ''content'' first) (\<lambda>content.
               bindE (opt_prop ''username'' content) (\<lambda>username.
               Inr (if truthy username then username else None))))
          else Inr None)
     else Inr None)"

definition getCurrentUser :: "string option \<Rightarrow> http_client \<Rightarrow> error + SplunkUser" where
  "getCurrentUser config_username client =
     (let currentUsername = JStr (str_or config_username ''admin'');
          currentUsername =
            (case client (GET ''/services/authentication/current-context'' json_mode) of
               Inl e \<Rightarrow> currentUsername
             | Inr contextData \<Rightarrow>
                 (case context_username contextData of
                    Inl e \<Rightarrow> currentUsername
                  | Inr None \<Rightarrow> currentUsername
                  | Inr (Some found) \<Rightarrow> found))
      in case client (GET (''/services/authentication/users/'' @ js_String currentUsername)
                        json_mode) of
           Inl e \<Rightarrow> Inl e
         | Inr data \<Rightarrow>
             bindE (get_prop ''entry'' (Some data)) (\<lambda>entry.
             bindE (if truthy entry then get_prop ''length'' entry else Inr None) (\<lambda>len.
             if \<not> truthy entry \<or> len = Some (JNum 0)
             then Inl (Error (''User not found: '' @ js_String currentUsername))
             else
               bindE (index0 entry) (\<lambda>first.
               bindE (get_prop ''content'' first) (\<lambda>content.
               bindE (get_prop ''roles'' content) (\<lambda>content_roles.
               bindE (get_prop ''capabilities'' content) (\<lambda>content_capabilities.
               bindE (get_prop ''realname'' content) (\<lambda>realname.
               bindE (get_prop ''email'' content) (\<lambda>content_email.
               bindE (get_prop ''defaultApp'' content) (\<lambda>defaultApp.
               bindE (get_prop ''type'' content) (\<lambda>content_type.
               Inr \<lparr> username = Some currentUsername,
                     real_name = or_else realname (JStr ''N/A''),
                     email = or_else content_email (JStr ''N/A''),
                     roles =
                       (case content_roles of
                          Some (JArr xs) \<Rightarrow> xs
                        | _ \<Rightarrow> if truthy content_roles then singleton content_roles else []),
                     capabilities =
                       (case content_capabilities of
                          Some (JArr xs) \<Rightarrow> xs
                        | _ \<Rightarrow> []),
                     default_app = or_else defaultApp (JStr ''search''),
                     user_type = or_else content_type (JStr ''user'') \<rparr>)))))))))))"

definition user_of :: "json \<Rightarrow> error + SplunkUser" where
  "user_of entry =
     bindE (get_prop ''content'' (Some entry)) (\<lambda>content.
     bindE (get_prop ''roles'' content) (\<lambda>content_roles.
     bindE (get_prop ''capabilities'' content) (\<lambda>content_capabilities.
     bindE (get_prop ''name'' (Some entry)) (\<lambda>name.
     bindE (get_prop ''realname'' content) (\<lambda>realname.
     bindE (get_prop ''email'' content) (\<lambda>content_email.
     bindE (get_prop ''defaultApp'' content) (\<lambda>defaultApp.
     bindE (get_prop ''type'' content) (\<lambda>content_type.
     Inr \<lparr> username = name,
           real_name = or_else realname (JStr ''N/A''),
           email = or_else content_email (JStr ''N/A''),
           roles =
             (case content_roles of
                Some (JArr xs) \<Rightarrow> xs
              | _ \<Rightarrow> if truthy content_roles then singleton content_roles else []),
           capabilities =
             (case content_capabilities of
                Some (JArr xs) \<Rightarrow> xs
              | _ \<Rightarrow> if truthy content_capabilities then singleton content_capabilities else []),
           default_app = or_else defaultApp (JStr ''search''),
           user_type = or_else content_type (JStr ''user'') \<rparr>))))))))"

text \<open>
  The loop of \<^verbatim>\<open>listUsers\<close>. Its \<^verbatim>\<open>catch\<close> handler logs \<^verbatim>\<open>entry.name\<close>, a read that
  throws again when the entry is \<^verbatim>\<open>null\<close>; that error leaves the loop.
\<close>

fun users_loop :: "json list \<Rightarrow> error + SplunkUser list" where
  "users_loop [] = Inr []"
| "users_loop (entry # entries) =
     (case user_of entry of
        Inr user \<Rightarrow> bindE (users_loop entries) (\<lambda>users. Inr (user # users))
      | Inl e \<Rightarrow> bindE (get_prop ''name'' (Some entry)) (\<lambda>name. users_loop entries))"

definition listUsers :: "http_client \<Rightarrow> error + SplunkUser list" where
  "listUsers client =
     (case client (GET ''/services/authentication/users'' json_mode) of
        Inl e \<Rightarrow> Inl e
      | Inr data \<Rightarrow>
          bindE (get_prop ''entry'' (Some data)) (\<lambda>entry.
          bindE (for_of (or_else entry (JArr []))) (\<lambda>entries.
          users_loop entries)))"

subsection \<open>listKVStoreCollections\<close>

text \<open>
  \<^verbatim>\<open>JSON.parse\<close> is a parameter \<open>parse\<close> of the model. \<open>collectionStats\<close> is an
  association list; a member called \<open>__proto__\<close> is outside the model.
\<close>

type_synonym stats = "(string \<times> json) list"

definition stat_of :: "(string \<Rightarrow> error + json) \<Rightarrow> stats \<Rightarrow> json \<Rightarrow> error + stats" where
  "stat_of parse collectionStats kvstore =
     bindE (case kvstore of JStr s \<Rightarrow> parse s | _ \<Rightarrow> Inr kvstore) (\<lambda>parsed.
     bindE (get_prop ''ns'' (Some parsed)) (\<lambda>ns.
     bindE (get_prop ''count'' (Some parsed)) (\<lambda>count.
     Inr (case count of
            None \<Rightarrow> collectionStats
          | Some c \<Rightarrow> if truthy ns then obj_set (template ns) c collectionStats
                      else collectionStats))))"

definition stats_step :: "(string \<Rightarrow> error + json) \<Rightarrow> json \<Rightarrow> stats \<Rightarrow> stats" where
  "stats_step parse kvstore collectionStats =
     (case stat_of parse collectionStats kvstore of
        Inl e \<Rightarrow> collectionStats
      | Inr collectionStats' \<Rightarrow> collectionStats')"

definition stats_of_response :: "(string \<Rightarrow> error + json) \<Rightarrow> json \<Rightarrow> error + stats" where
  "stats_of_response parse statsData =
     bindE (get_prop ''entry'' (Some statsData)) (\<lambda>entry.
     if truthy entry
     then bindE (get_prop ''length'' entry) (\<lambda>len.
          if gt_zero len
          then bindE (index0 entry) (\<lambda>first.
               bindE (get_prop ''content'' first) (\<lambda>content.
               bindE (get_prop ''data'' content) (\<lambda>content_data.
               bindE (for_of (or_else content_data (JArr []))) (\<lambda>data.
               Inr (fold (stats_step parse) data [])))))
          else Inr [])
     else Inr [])"

definition kv_stats_request :: request where
  "kv_stats_request = GET ''/services/server/introspection/kvstore/collectionstats'' json_mode"

definition kv_config_request :: request where
  "kv_config_request = GET ''/servicesNS/-/-/storage/collections/config'' json_mode"

text \<open>The first \<^verbatim>\<open>try\<close> block: any failure leaves \<open>collectionStats\<close> empty.\<close>

definition fetch_stats :: "(string \<Rightarrow> error + json) \<Rightarrow> http_client \<Rightarrow> stats" where
  "fetch_stats parse client =
     (case client kv_stats_request of
        Inl e \<Rightarrow> []
      | Inr statsData \<Rightarrow>
          (case stats_of_response parse statsData of
             Inl e \<Rightarrow> []
           | Inr collectionStats \<Rightarrow> collectionStats))"

text \<open>
  \<^verbatim>\<open>for (const key in content)\<close>: the keys of an object, the indices of an array or a
  string, nothing otherwise. (JavaScript lists integer-like keys of an object first; the
  loop ignores such keys.)
\<close>

fun for_in :: "jsval \<Rightarrow> string list" where
  "for_in (Some (JObj kvs)) = map fst kvs"
| "for_in (Some (JArr xs)) = map decimal [0..<length xs]"
| "for_in (Some (JStr s)) = map decimal [0..<length s]"
| "for_in _ = []"

definition field_step :: "string \<Rightarrow> string list \<times> string list \<Rightarrow> string list \<times> string list" where
  "field_step key acc =
     (case acc of (fieldNames, accelFields) \<Rightarrow>
        if startsWith key ''field.''
        then (fieldNames @ [remove_first ''field.'' key], accelFields)
        else if startsWith key ''accelerated_field.''
        then (fieldNames, accelFields @ [remove_first ''accelerated_field.'' key])
        else (fieldNames, accelFields))"

record KVStoreCollection =
  kv_name :: jsval
  kv_app :: json
  kv_fields :: "string list"
  kv_accelerated_fields :: "string list"
  kv_record_count :: json

definition stats_key :: "json \<Rightarrow> jsval \<Rightarrow> string" where
  "stats_key app collectionName = js_String app @ ''.'' @ template collectionName"

definition collection_of :: "stats \<Rightarrow> json \<Rightarrow> error + KVStoreCollection" where
  "collection_of collectionStats entry =
     bindE (get_prop ''name'' (Some entry)) (\<lambda>collectionName.
     bindE (get_prop ''content'' (Some entry)) (\<lambda>content.
     bindE (get_prop ''acl'' (Some entry)) (\<lambda>acl.
     bindE (opt_prop ''app'' acl) (\<lambda>acl_app.
     let app = or_else acl_app (JStr ''unknown'');
         lists = fold field_step (for_in content) ([], [])
     in Inr \<lparr> kv_name = collectionName,
              kv_app = app,
              kv_fields = fst lists,
              kv_accelerated_fields = snd lists,
              kv_record_count =
                or_else (map_of collectionStats (stats_key app collectionName)) (JNum 0) \<rparr>))))"

definition listKVStoreCollections ::
  "(string \<Rightarrow> error + json) \<Rightarrow> http_client \<Rightarrow> error + KVStoreCollection list" where
  "listKVStoreCollections parse client =
     (let collectionStats = fetch_stats parse client
      in case client kv_config_request of
           Inl e \<Rightarrow> Inl e
         | Inr data \<Rightarrow>
             bindE (get_prop ''entry'' (Some data)) (\<lambda>entry.
             bindE (for_of (or_else entry (JArr []))) (\<lambda>entries.
             Inr (collect (collection_of collectionStats) entries))))"

section \<open>Sample inputs\<close>

text \<open>The payload of the \<^verbatim>\<open>getTraceDetails\<close> test: two spans on two services.\<close>

definition empty_span :: raw_span where
  "empty_span = \<lparr> rs_spanId = None, rs_traceId = None, rs_parentSpanId = None,
     rs_operationName = None, rs_serviceName = None, rs_startTime = None, rs_duration = None,
     rs_tags = None, rs_logs = None, rs_status = None, rs_errorMessage = None \<rparr>"

definition two_span_trace :: raw_trace where
  "two_span_trace =
     \<lparr> rt_traceId = Some ''trace-456'',
       rt_spans = Some
         [empty_span \<lparr> rs_spanId := Some ''span-1'', rs_operationName := Some ''http.request'',
            rs_serviceName := Some ''api-gateway'', rs_startTime := Some 1000000,
            rs_duration := Some 150, rs_status := Some ''ok'' \<rparr>,
          empty_span \<lparr> rs_spanId := Some ''span-2'', rs_parentSpanId := Some ''span-1'',
            rs_operationName := Some ''db.query'', rs_serviceName := Some ''user-service'',
            rs_startTime := Some 1000010, rs_duration := Some 50, rs_status := Some ''ok'' \<rparr>] \<rparr>"

definition no_spans_trace :: raw_trace where
  "no_spans_trace = \<lparr> rt_traceId = Some ''trace-0'', rt_spans = None \<rparr>"

definition no_criteria :: TraceSearchCriteria where
  "no_criteria = \<lparr> c_service = None, c_operation = None, c_tags = None, c_minDuration = None,
     c_maxDuration = None, c_error = None, c_limit = None, c_offset = None,
     c_startTime = None, c_endTime = None \<rparr>"

text \<open>A tracing upstream that answers every search with one trace and no total.\<close>

definition one_trace_post :: "string \<Rightarrow> query \<Rightarrow> error + search_response" where
  "one_trace_post path body = Inr \<lparr> sr_traces = Some [two_span_trace], sr_totalCount = None \<rparr>"

text \<open>Splunk upstreams: one that is unreachable, and two that answer with a fixed body.\<close>

definition failing_client :: http_client where
  "failing_client req = Inl (Error ''Network error'')"

definition no_entry_client :: http_client where
  "no_entry_client req = Inr (JObj [])"

definition empty_entry_client :: http_client where
  "empty_entry_client req = Inr (JObj [(''entry'', JArr [])])"

definition no_parse :: "string \<Rightarrow> error + json" where
  "no_parse s = Inl (SyntaxError ''Unexpected token'')"

text \<open>
  A user whose \<open>roles\<close> and \<open>capabilities\<close> are each a single string, served both by the
  user listing and by the single-user endpoint; the current-context lookup fails.
\<close>

definition scalar_user :: json where
  "scalar_user = JObj [(''name'', JStr ''alice''),
     (''content'', JObj [(''roles'', JStr ''admin''), (''capabilities'', JStr ''search'')])]"

definition scalar_user_client :: http_client where
  "scalar_user_client req =
     (if req = GET ''/services/authentication/current-context'' json_mode
      then Inl (Error ''Request failed with status code 404'')
      else Inr (JObj [(''entry'', JArr [scalar_user])]))"







text \<open>
  Two payloads on which double arithmetic rounds: a span starting at \<open>2^53\<close> that lasts
  1, and a span starting at the double nearest to 0.1 that lasts the double nearest to 0.2.
\<close>

definition rounding_trace :: raw_trace where
  "rounding_trace =
     \<lparr> rt_traceId = Some ''trace-r'',
       rt_spans = Some
         [empty_span \<lparr> rs_serviceName := Some ''svc'', rs_startTime := Some 9007199254740992,
            rs_duration := Some 1 \<rparr>] \<rparr>"

definition fraction_trace :: raw_trace where
  "fraction_trace =
     \<lparr> rt_traceId = Some ''trace-f'',
       rt_spans = Some
         [empty_span \<lparr> rs_serviceName := Some ''svc'',
            rs_startTime := Some (3602879701896397 / 2 ^ 55),
            rs_duration := Some (3602879701896397 / 2 ^ 54) \<rparr>] \<rparr>"

section \<open>Properties of the SignalFx client\<close>

subsection \<open>Double arithmetic\<close>

lemma round_double_not_NaN: "round_double q \<noteq> NaN"
  unfolding round_double_def Let_def by simp

lemma span_end_not_NaN: "span_end s \<noteq> NaN"
  by (simp add: span_end_def round_double_not_NaN)

text \<open>
  Rounding at the numbers of the sample inputs. \<open>2^53 + 1\<close> lies halfway between two
  doubles and goes to \<open>2^53\<close>; the sum of the doubles nearest to 0.1 and 0.2 is not a
  double and goes to 0.30000000000000004.
\<close>

lemma round_double_samples:
  "round_double 0 = Fin 0"
  "round_double 1 = Fin 1"
  "round_double 1000150 = Fin 1000150"
  "round_double 1000060 = Fin 1000060"
  "round_double 150 = Fin 150"
  "round_double 9007199254740993 = Fin 9007199254740992"
  "round_double (10808639105689191 / 36028797018963968)
     = Fin (1351079888211149 / 4503599627370496)"
  "round_double (7205759403792795 / 36028797018963968)
     = Fin (7205759403792795 / 36028797018963968)"
  unfolding round_double_def Let_def
  by (simp_all add: binade_def pow2_def round_half_even_def Let_def)

lemma num_add_rounds:
  "num_add (Fin 9007199254740992) (Fin 1) = Fin 9007199254740992"
  "num_add (Fin 9007199254740991) (Fin 2) = Fin 9007199254740992"
  "num_sub (Fin 9007199254740992) (Fin 9007199254740991) = Fin 1"
  "num_sub (Fin 9007199254740992) (Fin 9007199254740992) = Fin 0"
  by (simp_all add: round_double_samples)

subsection \<open>Minimum, maximum and deduplication\<close>

lemma fold_min_step_Fin: "fold min_step (map Fin xs) (Fin a) = Fin (fold min xs a)"
  by (induction xs arbitrary: a) (auto simp: min_def)

lemma Math_min_Fin:
  "Math_min (map Fin xs @ [PInf]) = (if xs = [] then PInf else Fin (Min (set xs)))"
proof (cases xs)
  case Nil
  then show ?thesis by (simp add: Math_min_def)
next
  case (Cons x ys)
  have "Math_min (map Fin xs @ [PInf]) = min_step PInf (fold min_step (map Fin ys) (Fin x))"
    by (simp add: Math_min_def Cons)
  also have "\<dots> = Fin (fold min ys x)"
    by (simp add: fold_min_step_Fin)
  also have "fold min ys x = Min (set xs)"
    using Min.set_eq_fold[of x ys] by (simp add: Cons)
  finally show ?thesis by (simp add: Cons)
qed

lemma num_le_refl: "a \<noteq> NaN \<Longrightarrow> num_le a a"
  by (cases a) simp_all

lemma num_le_trans: "num_le a b \<Longrightarrow> num_le b c \<Longrightarrow> num_le a c"
  by (cases a; cases b; cases c) simp_all

lemma num_le_not_NaN: "num_le a b \<Longrightarrow> a \<noteq> NaN \<and> b \<noteq> NaN"
  by (cases a; cases b) simp_all

lemma num_le_NInf: "num_le a NInf \<Longrightarrow> a = NInf"
  by (cases a) simp_all

lemma max_step_cases:
  assumes "x \<noteq> NaN" and "highest \<noteq> NaN"
  shows "max_step x highest \<in> {x, highest} \<and> num_le x (max_step x highest) \<and>
         num_le highest (max_step x highest)"
  using assms by (cases x; cases highest) auto

lemma fold_max_step_greatest:
  assumes "highest \<noteq> NaN" and "NaN \<notin> set xs"
  shows "fold max_step xs highest \<in> insert highest (set xs) \<and>
         num_le highest (fold max_step xs highest) \<and>
         (\<forall>x \<in> set xs. num_le x (fold max_step xs highest))"
  using assms
proof (induction xs arbitrary: highest)
  case Nil
  then show ?case by (simp add: num_le_refl)
next
  case (Cons x xs)
  define h where "h = max_step x highest"
  have x: "x \<noteq> NaN" and xs: "NaN \<notin> set xs" using Cons.prems(2) by auto
  have step: "h \<in> {x, highest}" "num_le x h" "num_le highest h"
    using max_step_cases[OF x Cons.prems(1)] unfolding h_def by blast+
  then have "h \<noteq> NaN" using num_le_not_NaN by blast
  from Cons.IH[OF this xs]
  have ih: "fold max_step xs h \<in> insert h (set xs)"
    "num_le h (fold max_step xs h)"
    "\<forall>y \<in> set xs. num_le y (fold max_step xs h)" by blast+
  have unfold: "fold max_step (x # xs) highest = fold max_step xs h"
    unfolding h_def by (simp only: fold_simps)
  have 1: "fold max_step xs h \<in> insert highest (set (x # xs))"
    using ih(1) step(1) by auto
  have 2: "num_le highest (fold max_step xs h)"
    using step(3) ih(2) by (rule num_le_trans)
  have 3: "num_le x (fold max_step xs h)"
    using step(2) ih(2) by (rule num_le_trans)
  show ?case unfolding unfold using 1 2 3 ih(3) by auto
qed

lemma Math_max_greatest:
  assumes "NaN \<notin> set xs" and "xs \<noteq> []"
  shows "is_greatest (Math_max (xs @ [NInf])) xs"
proof -
  let ?r = "fold max_step xs NInf"
  have r: "?r \<in> insert NInf (set xs)" "\<forall>x \<in> set xs. num_le x ?r"
    using fold_max_step_greatest[of NInf xs] assms(1) by simp_all
  obtain x where x: "x \<in> set xs" using assms(2) by (cases xs) auto
  then have "num_le x ?r" using r(2) by blast
  then have nn: "?r \<noteq> NaN" using num_le_not_NaN by blast
  have "Math_max (xs @ [NInf]) = max_step NInf ?r"
    unfolding Math_max_def by (simp only: fold_append fold_simps comp_def)
  also have "\<dots> = ?r" using nn by (cases ?r) simp_all
  finally have eq: "Math_max (xs @ [NInf]) = ?r" .
  have "?r \<in> set xs"
  proof (cases "?r = NInf")
    case True
    then have "x = NInf" using \<open>num_le x ?r\<close> num_le_NInf by simp
    then show ?thesis using x True by simp
  next
    case False
    then show ?thesis using r(1) by simp
  qed
  then show ?thesis using r(2) by (simp add: is_greatest_def eq)
qed

lemma first_seen_snoc:
  "first_seen (xs @ [x]) = first_seen xs @ (if x \<in> set xs then [] else [x])"
proof -
  have "[(xs @ [x]) ! i. i \<leftarrow> [0..<length xs], (xs @ [x]) ! i \<notin> set (take i (xs @ [x]))]
      = [xs ! i. i \<leftarrow> [0..<length xs], xs ! i \<notin> set (take i xs)]"
    by (intro arg_cong[where f=concat] map_cong) (auto simp: nth_append)
  then show ?thesis by (simp add: first_seen_def)
qed

lemma set_Array_from_Set: "set (Array_from_Set xs) = set xs"
  by (induction xs rule: rev_induct) (auto simp: Array_from_Set_def set_add_def)

lemma distinct_Array_from_Set: "distinct (Array_from_Set xs)"
  by (induction xs rule: rev_induct) (auto simp: Array_from_Set_def set_add_def)

lemma Array_from_Set_first_seen: "Array_from_Set xs = first_seen xs"
proof (induction xs rule: rev_induct)
  case Nil
  show ?case by (simp add: Array_from_Set_def first_seen_def)
next
  case (snoc x xs)
  have "Array_from_Set (xs @ [x]) = set_add x (Array_from_Set xs)"
    by (simp add: Array_from_Set_def)
  then show ?case
    using snoc set_Array_from_Set[of xs] by (simp add: set_add_def first_seen_snoc)
qed

subsection \<open>Trace parsing\<close>

lemmas parse_eval = parseTrace_def parseSpan_def Let_def span_end_def
  Array_from_Set_def set_add_def Math_min_def Math_max_def num_or_def obj_or_def
  round_double_samples

text \<open>
  Claim C7. For every raw trace payload, the parsed trace has: \<open>startTime\<close> the minimum
  of the span start times, and \<open>+Infinity\<close> when there is no span; \<open>duration\<close> the
  greatest span end (the double sum of start and duration; \<open>-Infinity\<close> when there is no
  span) minus that \<open>startTime\<close>, a double difference; \<open>services\<close> the span service names
  without duplicates in the order in which they are first seen; \<open>operationName\<close> the
  operation name of the first span, and nothing when there is no span. The spans are the
  parsed raw spans.
\<close>

theorem parseTrace_aggregates:
  "t_spans (parseTrace traceData) = map parseSpan (obj_or (rt_spans traceData) []) \<and>
   t_startTime (parseTrace traceData) =
     (if t_spans (parseTrace traceData) = [] then PInf
      else Fin (Min (set (map startTime (t_spans (parseTrace traceData)))))) \<and>
   (\<exists>latest.
      (if t_spans (parseTrace traceData) = [] then latest = NInf
       else is_greatest latest (map span_end (t_spans (parseTrace traceData)))) \<and>
      t_duration (parseTrace traceData) = num_sub latest (t_startTime (parseTrace traceData))) \<and>
   t_services (parseTrace traceData) = first_seen (map serviceName (t_spans (parseTrace traceData))) \<and>
   distinct (t_services (parseTrace traceData)) \<and>
   set (t_services (parseTrace traceData)) = serviceName ` set (t_spans (parseTrace traceData)) \<and>
   t_operationName (parseTrace traceData) =
     (case t_spans (parseTrace traceData) of [] \<Rightarrow> None | s # _ \<Rightarrow> operationName s)"
proof -
  define spans where "spans = map parseSpan (obj_or (rt_spans traceData) [])"
  define latest where "latest = Math_max (map span_end spans @ [NInf])"
  have sp: "t_spans (parseTrace traceData) = spans"
    by (simp add: parseTrace_def Let_def spans_def)
  have "t_startTime (parseTrace traceData) = Math_min (map Fin (map startTime spans) @ [PInf])"
    by (simp add: parseTrace_def Let_def spans_def comp_def)
  then have st: "t_startTime (parseTrace traceData) =
      (if spans = [] then PInf else Fin (Min (set (map startTime spans))))"
    using Math_min_Fin[of "map startTime spans"] by simp
  have du: "t_duration (parseTrace traceData) = num_sub latest (t_startTime (parseTrace traceData))"
    by (simp add: parseTrace_def Let_def spans_def latest_def)
  have la: "if spans = [] then latest = NInf else is_greatest latest (map span_end spans)"
  proof (cases "spans = []")
    case True
    then show ?thesis by (simp add: latest_def Math_max_def)
  next
    case False
    have "NaN \<notin> set (map span_end spans)"
      using span_end_not_NaN by (auto simp: image_iff) metis
    moreover have "map span_end spans \<noteq> []" using False by simp
    ultimately show ?thesis
      unfolding latest_def using False by (simp add: Math_max_greatest)
  qed
  have se: "t_services (parseTrace traceData) = Array_from_Set (map serviceName spans)"
    by (simp add: parseTrace_def Let_def spans_def)
  have op: "t_operationName (parseTrace traceData) = first_operationName spans"
    by (simp add: parseTrace_def Let_def spans_def)
  have 1: "t_spans (parseTrace traceData) = map parseSpan (obj_or (rt_spans traceData) [])"
    by (simp add: sp spans_def)
  have 3: "\<exists>latest.
      (if spans = [] then latest = NInf else is_greatest latest (map span_end spans)) \<and>
      t_duration (parseTrace traceData) = num_sub latest (t_startTime (parseTrace traceData))"
    using la du by blast
  have 4: "t_services (parseTrace traceData) = first_seen (map serviceName spans)"
    by (simp add: se Array_from_Set_first_seen)
  have 5: "distinct (t_services (parseTrace traceData))"
    by (simp add: se distinct_Array_from_Set)
  have 6: "set (t_services (parseTrace traceData)) = serviceName ` set spans"
    by (simp add: se set_Array_from_Set)
  have 7: "t_operationName (parseTrace traceData) =
     (case spans of [] \<Rightarrow> None | s # _ \<Rightarrow> operationName s)"
    by (simp add: op first_operationName_def)
  show ?thesis
    unfolding sp using 1[unfolded sp] st 3 4 5 6 7 by blast
qed

text \<open>
  The statement of C7 at four payloads: the two spans of the test suite; no span, where
  the timing is \<open>+Infinity\<close> and \<open>-Infinity\<close>; a span from \<open>2^53\<close> lasting 1, whose end
  rounds to \<open>2^53\<close>, so that the duration is 0; and a span from 0.1 lasting 0.2, whose
  duration is 0.20000000000000004.
\<close>

theorem parseTrace_aggregates_witness:
  "t_startTime (parseTrace two_span_trace) = Fin 1000000 \<and>
   t_duration (parseTrace two_span_trace) = Fin 150 \<and>
   t_services (parseTrace two_span_trace) = [Some ''api-gateway'', Some ''user-service''] \<and>
   t_operationName (parseTrace two_span_trace) = Some ''http.request'' \<and>
   t_startTime (parseTrace no_spans_trace) = PInf \<and>
   t_duration (parseTrace no_spans_trace) = NInf \<and>
   t_services (parseTrace no_spans_trace) = [] \<and>
   t_operationName (parseTrace no_spans_trace) = None \<and>
   t_startTime (parseTrace rounding_trace) = Fin 9007199254740992 \<and>
   t_duration (parseTrace rounding_trace) = Fin 0 \<and>
   t_startTime (parseTrace fraction_trace) = Fin (3602879701896397 / 2 ^ 55) \<and>
   t_duration (parseTrace fraction_trace) = Fin (7205759403792795 / 2 ^ 55)"
  using parseTrace_aggregates [of two_span_trace] parseTrace_aggregates [of no_spans_trace]
    parseTrace_aggregates [of rounding_trace] parseTrace_aggregates [of fraction_trace]
  by (simp add: two_span_trace_def no_spans_trace_def rounding_trace_def fraction_trace_def
      empty_span_def first_operationName_def parse_eval)

text \<open>
  Claim C1, as stated, fails: for the two spans (1000000, 150) and (1000010, 50) of the
  test payload the services list holds both names, but the duration is not 60.
\<close>

theorem two_span_duration_counterexample:
  "\<not> (Some ''api-gateway'' \<in> set (t_services (parseTrace two_span_trace)) \<and>
      Some ''user-service'' \<in> set (t_services (parseTrace two_span_trace)) \<and>
      t_duration (parseTrace two_span_trace) = Fin 60)"
  by (simp add: two_span_trace_def empty_span_def parse_eval)

text \<open>
  Claim C1, amended. For a raw trace payload with exactly two spans, with
  (startTime, duration) = (1000000, 150) and (1000010, 50), on two different service names,
  the parsed trace lists both service names and has duration 150: the latest span end,
  1000150, minus the earliest span start, 1000000.
\<close>

theorem two_span_trace_duration:
  assumes "rt_spans traceData = Some [s1, s2]"
    and "rs_startTime s1 = Some 1000000" and "rs_duration s1 = Some 150"
    and "rs_startTime s2 = Some 1000010" and "rs_duration s2 = Some 50"
    and "rs_serviceName s1 \<noteq> rs_serviceName s2"
  shows "t_services (parseTrace traceData) = [rs_serviceName s1, rs_serviceName s2] \<and>
         t_startTime (parseTrace traceData) = Fin 1000000 \<and>
         t_duration (parseTrace traceData) = Fin 150"
  using assms
  by (simp add: parse_eval)

theorem two_span_trace_duration_witness:
  "t_services (parseTrace two_span_trace) = [Some ''api-gateway'', Some ''user-service''] \<and>
   t_startTime (parseTrace two_span_trace) = Fin 1000000 \<and>
   t_duration (parseTrace two_span_trace) = Fin 150"
proof -
  let ?s1 = "empty_span \<lparr> rs_spanId := Some ''span-1'', rs_operationName := Some ''http.request'',
            rs_serviceName := Some ''api-gateway'', rs_startTime := Some 1000000,
            rs_duration := Some 150, rs_status := Some ''ok'' \<rparr>"
  let ?s2 = "empty_span \<lparr> rs_spanId := Some ''span-2'', rs_parentSpanId := Some ''span-1'',
            rs_operationName := Some ''db.query'', rs_serviceName := Some ''user-service'',
            rs_startTime := Some 1000010, rs_duration := Some 50, rs_status := Some ''ok'' \<rparr>"
  have "rt_spans two_span_trace = Some [?s1, ?s2]"
    and "rs_startTime ?s1 = Some 1000000" and "rs_duration ?s1 = Some 150"
    and "rs_startTime ?s2 = Some 1000010" and "rs_duration ?s2 = Some 50"
    and "rs_serviceName ?s1 \<noteq> rs_serviceName ?s2"
    by (simp_all add: two_span_trace_def)
  from two_span_trace_duration [OF this] show ?thesis by simp
qed

subsection \<open>The trace query\<close>

lemma map_of_map_replace:
  "map_of (map (\<lambda>(k', v'). if k' = k then (k', v) else (k', v')) obj) k' =
     (if k' = k then (case map_of obj k of None \<Rightarrow> None | Some _ \<Rightarrow> Some v) else map_of obj k')"
  by (induction obj) auto

lemma map_of_obj_set:
  "map_of (obj_set k v obj) k' = (if k' = k then Some v else map_of obj k')"
proof (cases "k \<in> fst ` set obj")
  case False
  then have "map_of obj k = None" by (simp add: map_of_eq_None_iff)
  then show ?thesis using False by (auto simp: obj_set_def map_add_def split: option.splits)
next
  case True
  then have "map_of obj k \<noteq> None" by (simp add: map_of_eq_None_iff)
  then show ?thesis using True by (auto simp: obj_set_def map_of_map_replace)
qed

lemma map_of_when_some:
  "map_of (case x of None \<Rightarrow> obj | Some a \<Rightarrow> obj_set k (f a) obj) k' =
     (if k' = k \<and> x \<noteq> None then map_option f x else map_of obj k')"
  by (cases x) (simp_all add: map_of_obj_set)

lemma map_of_when_nonempty:
  "map_of (case x of None \<Rightarrow> obj | Some s \<Rightarrow> if s \<noteq> [] then obj_set k (QStr s) obj else obj) k' =
     (if k' = k \<and> x \<noteq> None \<and> x \<noteq> Some [] then map_option QStr x else map_of obj k')"
  by (cases x) (simp_all add: map_of_obj_set)

text \<open>
  Claim C6, as stated, fails: a service that is provided as the empty string is left out
  of the query.
\<close>

theorem buildTraceQuery_empty_service_counterexample:
  "c_service (no_criteria \<lparr> c_service := Some [] \<rparr>) = Some [] \<and>
   map_of (buildTraceQuery (no_criteria \<lparr> c_service := Some [] \<rparr>)) ''service'' = None \<and>
   buildTraceQuery (no_criteria \<lparr> c_service := Some [] \<rparr>) =
     [(''limit'', QNum 100), (''offset'', QNum 0)]"
  by (simp add: buildTraceQuery_def Let_def no_criteria_def obj_set_def num_or_def)

text \<open>
  Claim C6, amended. The query holds \<open>service\<close> and \<open>operation\<close> exactly when the
  criteria give them as non-empty strings; it holds each of \<open>tags\<close>, \<open>minDuration\<close>,
  \<open>maxDuration\<close>, \<open>error\<close>, \<open>startTime\<close> and \<open>endTime\<close> exactly when the criteria
  give it, whatever the value (\<open>error: false\<close> and \<open>minDuration: 0\<close> are kept). It always
  holds \<open>limit\<close>, the given limit unless that is absent or zero, when it is 100, and
  \<open>offset\<close>, the given offset, and 0 when absent.
\<close>

theorem buildTraceQuery_fields:
  "map_of (buildTraceQuery c) ''service'' =
     (case c_service c of None \<Rightarrow> None | Some s \<Rightarrow> if s = [] then None else Some (QStr s)) \<and>
   map_of (buildTraceQuery c) ''operation'' =
     (case c_operation c of None \<Rightarrow> None | Some s \<Rightarrow> if s = [] then None else Some (QStr s)) \<and>
   map_of (buildTraceQuery c) ''tags'' = map_option QTags (c_tags c) \<and>
   map_of (buildTraceQuery c) ''minDuration'' = map_option QNum (c_minDuration c) \<and>
   map_of (buildTraceQuery c) ''maxDuration'' = map_option QNum (c_maxDuration c) \<and>
   map_of (buildTraceQuery c) ''error'' = map_option QBool (c_error c) \<and>
   map_of (buildTraceQuery c) ''startTime'' = map_option QNum (c_startTime c) \<and>
   map_of (buildTraceQuery c) ''endTime'' = map_option QNum (c_endTime c) \<and>
   map_of (buildTraceQuery c) ''limit'' =
     Some (QNum (case c_limit c of None \<Rightarrow> 100 | Some n \<Rightarrow> if n = 0 then 100 else n)) \<and>
   map_of (buildTraceQuery c) ''offset'' =
     Some (QNum (case c_offset c of None \<Rightarrow> 0 | Some n \<Rightarrow> n))"
proof -
  note unfold = buildTraceQuery_def Let_def map_of_obj_set map_of_when_some map_of_when_nonempty
  have 1: "map_of (buildTraceQuery c) ''service'' =
     (case c_service c of None \<Rightarrow> None | Some s \<Rightarrow> if s = [] then None else Some (QStr s))"
    by (simp add: unfold split: option.split)
  have 2: "map_of (buildTraceQuery c) ''operation'' =
     (case c_operation c of None \<Rightarrow> None | Some s \<Rightarrow> if s = [] then None else Some (QStr s))"
    by (simp add: unfold split: option.split)
  have 3: "map_of (buildTraceQuery c) ''tags'' = map_option QTags (c_tags c)"
    by (simp add: unfold)
  have 4: "map_of (buildTraceQuery c) ''minDuration'' = map_option QNum (c_minDuration c)"
    by (simp add: unfold)
  have 5: "map_of (buildTraceQuery c) ''maxDuration'' = map_option QNum (c_maxDuration c)"
    by (simp add: unfold)
  have 6: "map_of (buildTraceQuery c) ''error'' = map_option QBool (c_error c)"
    by (simp add: unfold)
  have 7: "map_of (buildTraceQuery c) ''startTime'' = map_option QNum (c_startTime c)"
    by (simp add: unfold)
  have 8: "map_of (buildTraceQuery c) ''endTime'' = map_option QNum (c_endTime c)"
    by (simp add: unfold)
  have 9: "map_of (buildTraceQuery c) ''limit'' =
     Some (QNum (case c_limit c of None \<Rightarrow> 100 | Some n \<Rightarrow> if n = 0 then 100 else n))"
    by (simp add: unfold num_or_def)
  have 10: "map_of (buildTraceQuery c) ''offset'' =
     Some (QNum (case c_offset c of None \<Rightarrow> 0 | Some n \<Rightarrow> n))"
    by (simp add: unfold num_or_def split: option.split)
  from 1 2 3 4 5 6 7 8 9 10 show ?thesis by blast
qed

theorem buildTraceQuery_fields_witness:
  "map_of (buildTraceQuery (no_criteria \<lparr> c_service := Some ''auth'', c_error := Some False \<rparr>))
     ''error'' = Some (QBool False) \<and>
   map_of (buildTraceQuery (no_criteria \<lparr> c_service := Some ''auth'', c_error := Some False \<rparr>))
     ''service'' = Some (QStr ''auth'') \<and>
   map_of (buildTraceQuery (no_criteria \<lparr> c_service := Some ''auth'', c_error := Some False \<rparr>))
     ''operation'' = None \<and>
   map_of (buildTraceQuery (no_criteria \<lparr> c_service := Some ''auth'', c_error := Some False \<rparr>))
     ''limit'' = Some (QNum 100) \<and>
   map_of (buildTraceQuery (no_criteria \<lparr> c_service := Some ''auth'', c_error := Some False \<rparr>))
     ''offset'' = Some (QNum 0)"
  using buildTraceQuery_fields
    [of "no_criteria \<lparr> c_service := Some ''auth'', c_error := Some False \<rparr>"]
  by (simp add: no_criteria_def)

subsection \<open>Trace search\<close>

text \<open>
  Claim C10. When the upstream answers a trace search with a body that has no
  \<open>totalCount\<close>, the result's \<open>totalCount\<close> is the number of parsed traces, and its
  \<open>limit\<close> and \<open>offset\<close> are those of the criteria when these are truthy, and 100 and 0
  otherwise.
\<close>

theorem searchTraces_defaults:
  assumes "post ''/traces/search'' (buildTraceQuery criteria) = Inr data"
    and "sr_totalCount data = None"
  shows "\<exists>r. searchTraces post criteria = Inr r \<and>
           traces r = map parseTrace (case sr_traces data of None \<Rightarrow> [] | Some ts \<Rightarrow> ts) \<and>
           totalCount r = int (length (traces r)) \<and>
           limit r = (if truthy_num (c_limit criteria) then the (c_limit criteria) else 100) \<and>
           offset r = (if truthy_num (c_offset criteria) then the (c_offset criteria) else 0)"
  using assms
  by (auto simp: searchTraces_def Let_def num_or_def truthy_num_def obj_or_def split: option.splits)

theorem searchTraces_defaults_witness:
  "\<exists>r. searchTraces one_trace_post (no_criteria \<lparr> c_limit := Some 25 \<rparr>) = Inr r \<and>
        traces r = [parseTrace two_span_trace] \<and> totalCount r = 1 \<and>
        limit r = 25 \<and> offset r = 0"
  using searchTraces_defaults
    [of one_trace_post "no_criteria \<lparr> c_limit := Some 25 \<rparr>"
        "\<lparr> sr_traces = Some [two_span_trace], sr_totalCount = None \<rparr>"]
  by (auto simp: one_trace_post_def no_criteria_def truthy_num_def)

section \<open>Properties of the Splunk client\<close>

subsection \<open>Lower case\<close>

lemma char_of_eq_iff_mod: "char_of (n::nat) = c \<longleftrightarrow> n mod 256 = of_char c"
proof
  assume "char_of n = c"
  then have "of_char (char_of n) = (of_char c :: nat)" by simp
  then show "n mod 256 = of_char c" by simp
next
  assume "n mod 256 = of_char c"
  then have "char_of (n mod 256) = (char_of (of_char c :: nat) :: char)" by simp
  then show "char_of n = c" by simp
qed

lemma of_char_less_256: "(of_char c :: nat) < 256"
proof -
  have "(of_char c :: nat) = of_char c mod 256"
    by (metis of_char_mod_256)
  then show ?thesis
    by (metis mod_less_divisor zero_less_numeral)
qed

lemma lower_char_eq_iff:
  assumes "97 \<le> (of_char d :: nat)" and "(of_char d :: nat) \<le> 122"
  shows "lower_char c = d \<longleftrightarrow> c = d \<or> (of_char c :: nat) + 32 = of_char d"
proof -
  define n :: nat where "n = of_char c"
  define m :: nat where "m = of_char d"
  have inj: "c = d \<longleftrightarrow> n = m"
    unfolding n_def m_def by (metis char_of_char)
  have lt: "n < 256" unfolding n_def by (rule of_char_less_256)
  have m: "97 \<le> m" "m \<le> 122" using assms by (simp_all add: m_def)
  have "lower_char c = d \<longleftrightarrow> c = d \<or> n + 32 = m"
  proof (cases "(65 \<le> n \<and> n \<le> 90) \<or> (192 \<le> n \<and> n \<le> 222 \<and> n \<noteq> 215)")
    case True
    then have "lower_char c = char_of (n + 32)"
      by (simp add: lower_char_def Let_def n_def)
    then have "lower_char c = d \<longleftrightarrow> (n + 32) mod 256 = m"
      by (simp add: char_of_eq_iff_mod m_def)
    moreover have "(n + 32) mod 256 = m \<longleftrightarrow> n + 32 = m"
      using True lt m by auto
    moreover have "n \<noteq> m" using True m by auto
    ultimately show ?thesis using inj by simp
  next
    case False
    then have "lower_char c = c"
      unfolding lower_char_def Let_def n_def by (simp only: if_False)
    moreover have "n + 32 \<noteq> m" using False m by auto
    ultimately show ?thesis by simp
  qed
  then show ?thesis unfolding n_def m_def .
qed

lemma lower_letter:
  assumes "97 \<le> (of_char d :: nat)" and "(of_char d :: nat) \<le> 122"
    and "(of_char u :: nat) + 32 = of_char d"
  shows "lower_char c = d \<longleftrightarrow> c = d \<or> c = u"
proof -
  have "(of_char c :: nat) + 32 = of_char d \<longleftrightarrow> (of_char c :: nat) = of_char u"
    using assms(3) by arith
  also have "\<dots> \<longleftrightarrow> c = u"
    by (rule of_char_eq_iff)
  finally show ?thesis using lower_char_eq_iff[OF assms(1,2), of c] by simp
qed

lemma lower_search_letters:
  "lower_char c = CHR ''s'' \<longleftrightarrow> c = CHR ''s'' \<or> c = CHR ''S''"
  "lower_char c = CHR ''e'' \<longleftrightarrow> c = CHR ''e'' \<or> c = CHR ''E''"
  "lower_char c = CHR ''a'' \<longleftrightarrow> c = CHR ''a'' \<or> c = CHR ''A''"
  "lower_char c = CHR ''r'' \<longleftrightarrow> c = CHR ''r'' \<or> c = CHR ''R''"
  "lower_char c = CHR ''c'' \<longleftrightarrow> c = CHR ''c'' \<or> c = CHR ''C''"
  "lower_char c = CHR ''h'' \<longleftrightarrow> c = CHR ''h'' \<or> c = CHR ''H''"
  by (rule lower_letter; simp)+

lemma toLowerCase_search:
  "startsWith (toLowerCase s) ''search'' \<longleftrightarrow> starts_with_search_ci s"
  by (cases s rule: starts_with_search_ci.cases)
     (simp_all add: startsWith_def toLowerCase_def lower_search_letters)

subsection \<open>searchSplunk\<close>

lemma searchSplunk_first_request:
  assumes "q \<noteq> []"
  shows "\<exists>more. snd (searchSplunk client q e l m) =
           POST ''/services/search/jobs''
             [(''search'',
               if \<not> startsWith (trim q) ''|'' \<and> \<not> startsWith (toLowerCase (trim q)) ''search''
               then ''search '' @ q else q),
              (''earliest_time'', obj_or e ''-24h''),
              (''latest_time'', obj_or l ''now''),
              (''exec_mode'', ''blocking'')] # more"
  using assms
  by (auto simp: searchSplunk_def Let_def split: sum.splits)

text \<open>
  Claim C4, as stated, fails: a query of three spaces is blank, yet it passes the check and
  the job request goes out, with the query \<open>search\<close> followed by four spaces.
\<close>

theorem searchSplunk_blank_counterexample:
  "trim ''   '' = [] \<and>
   searchSplunk failing_client ''   '' None None None =
     (Inl (Error ''Network error''),
      [POST ''/services/search/jobs''
         [(''search'', ''search    ''), (''earliest_time'', ''-24h''),
          (''latest_time'', ''now''), (''exec_mode'', ''blocking'')]])"
  by (simp add: searchSplunk_def failing_client_def trim_def is_white_space_def startsWith_def
      toLowerCase_def obj_or_def Let_def)

text \<open>
  Claim C4, amended. The empty search query fails with the validation failure
  \<open>Search query cannot be empty\<close> and no request is issued; every other query, a
  whitespace-only one too, passes the check, so that no request is issued exactly when the
  query is empty.
\<close>

theorem searchSplunk_empty_rejected:
  "searchSplunk client [] e l m = (Inl (Error ''Search query cannot be empty''), []) \<and>
   (snd (searchSplunk client q e l m) = [] \<longleftrightarrow> q = [])"
proof -
  have "snd (searchSplunk client q e l m) \<noteq> []" if "q \<noteq> []"
    using searchSplunk_first_request[OF that, of client e l m] by auto
  then show ?thesis by (auto simp: searchSplunk_def)
qed

theorem searchSplunk_empty_rejected_witness:
  "searchSplunk failing_client [] None None None =
     (Inl (Error ''Search query cannot be empty''), []) \<and>
   snd (searchSplunk failing_client ''index=main'' None None None) \<noteq> []"
  using searchSplunk_empty_rejected [of failing_client None None None "''index=main''"]
  by simp

text \<open>
  Claim C5. For every non-empty search query the first request is the job creation, and
  its \<open>search\<close> field is the query as given with \<open>search\<close> and a space put in front
  exactly when the trimmed query neither starts with \<open>|\<close> nor, in either case of each
  letter, with the word \<open>search\<close>; otherwise it is the query as given.
\<close>

theorem searchSplunk_outbound_query:
  assumes "q \<noteq> []"
  shows "\<exists>more. snd (searchSplunk client q e l m) =
           POST ''/services/search/jobs''
             [(''search'',
               if \<not> startsWith (trim q) ''|'' \<and> \<not> starts_with_search_ci (trim q)
               then ''search '' @ q else q),
              (''earliest_time'', obj_or e ''-24h''),
              (''latest_time'', obj_or l ''now''),
              (''exec_mode'', ''blocking'')] # more"
  using searchSplunk_first_request[OF assms, of client e l m]
  by (simp add: toLowerCase_search)

theorem searchSplunk_outbound_query_witness:
  "snd (searchSplunk failing_client ''index=main'' None None None) =
     [POST ''/services/search/jobs''
        [(''search'', ''search index=main''), (''earliest_time'', ''-24h''),
         (''latest_time'', ''now''), (''exec_mode'', ''blocking'')]] \<and>
   snd (searchSplunk failing_client ''| stats count'' None None None) =
     [POST ''/services/search/jobs''
        [(''search'', ''| stats count''), (''earliest_time'', ''-24h''),
         (''latest_time'', ''now''), (''exec_mode'', ''blocking'')]] \<and>
   snd (searchSplunk failing_client '' SEARCH index=main'' None None None) =
     [POST ''/services/search/jobs''
        [(''search'', '' SEARCH index=main''), (''earliest_time'', ''-24h''),
         (''latest_time'', ''now''), (''exec_mode'', ''blocking'')]]"
proof -
  have 1: "''index=main'' \<noteq> []" and 2: "''| stats count'' \<noteq> []"
    and 3: "'' SEARCH index=main'' \<noteq> []" by simp_all
  have b: "\<And>q. snd (searchSplunk failing_client q None None None) = [] \<or>
                (\<exists>r. snd (searchSplunk failing_client q None None None) = [r])"
    by (simp add: searchSplunk_def failing_client_def Let_def)
  show ?thesis
    using searchSplunk_outbound_query[OF 1, of failing_client None None None]
      searchSplunk_outbound_query[OF 2, of failing_client None None None]
      searchSplunk_outbound_query[OF 3, of failing_client None None None]
      b[of "''index=main''"] b[of "''| stats count''"] b[of "'' SEARCH index=main''"]
    by (auto simp: trim_def is_white_space_def startsWith_def obj_or_def)
qed

subsection \<open>Listings over the entry envelope\<close>

lemma listSavedSearches_no_entries:
  assumes "client (GET ''/services/saved/searches'' json_mode) = Inr (JObj members)"
    and "map_of members ''entry'' = None \<or> map_of members ''entry'' = Some (JArr [])"
  shows "listSavedSearches client = Inr []"
  using assms by (auto simp: listSavedSearches_def bindE_def or_else_def collect_def)

lemma listUsers_no_entries:
  assumes "client (GET ''/services/authentication/users'' json_mode) = Inr (JObj members)"
    and "map_of members ''entry'' = None \<or> map_of members ''entry'' = Some (JArr [])"
  shows "listUsers client = Inr []"
  using assms by (auto simp: listUsers_def bindE_def or_else_def)

lemma listKVStoreCollections_no_entries:
  assumes "client kv_config_request = Inr (JObj members)"
    and "map_of members ''entry'' = None \<or> map_of members ''entry'' = Some (JArr [])"
  shows "listKVStoreCollections parse client = Inr []"
  using assms
  by (auto simp: listKVStoreCollections_def bindE_def or_else_def collect_def Let_def)

lemma listIndexes_empty_entry:
  assumes "client (GET ''/services/data/indexes'' json_mode) = Inr (JObj members)"
    and "map_of members ''entry'' = Some (JArr [])"
  shows "listIndexes client = Inr \<lparr> indexes = [] \<rparr>"
  using assms by (simp add: listIndexes_def bindE_def)

lemma listIndexes_missing_entry:
  assumes "client (GET ''/services/data/indexes'' json_mode) = Inr (JObj members)"
    and "map_of members ''entry'' = None"
  shows "listIndexes client = Inl (TypeError ''Cannot read properties of undefined (reading map)'')"
  using assms by (simp add: listIndexes_def bindE_def)

text \<open>
  Claim C2 at a response body without \<open>entry\<close>: \<^verbatim>\<open>listIndexes\<close> calls \<^verbatim>\<open>map\<close> on
  \<^verbatim>\<open>undefined\<close> and throws, while the three listings that read
  \<^verbatim>\<open>response.data.entry || []\<close> return the empty sequence.
\<close>

theorem listIndexes_missing_entry_throws:
  "listIndexes no_entry_client =
     Inl (TypeError ''Cannot read properties of undefined (reading map)'') \<and>
   listIndexes empty_entry_client = Inr \<lparr> indexes = [] \<rparr> \<and>
   listSavedSearches no_entry_client = Inr [] \<and>
   listUsers no_entry_client = Inr [] \<and>
   listKVStoreCollections no_parse no_entry_client = Inr []"
  by (simp add: listIndexes_def listSavedSearches_def listUsers_def listKVStoreCollections_def
      no_entry_client_def empty_entry_client_def bindE_def or_else_def collect_def Let_def)

text \<open>At that body the result of \<^verbatim>\<open>listIndexes\<close> is not the empty index list.\<close>

theorem listIndexes_missing_entry_throws_witness:
  "listIndexes no_entry_client \<noteq> Inr \<lparr> indexes = [] \<rparr> \<and>
   listUsers no_entry_client = Inr []"
  using listIndexes_missing_entry_throws by simp

subsection \<open>User records\<close>

text \<open>
  Claim C3 at a user whose \<open>roles\<close> and \<open>capabilities\<close> are single strings:
  \<^verbatim>\<open>getCurrentUser\<close> wraps the role but returns no capability, while \<^verbatim>\<open>listUsers\<close>
  wraps both.
\<close>

theorem getCurrentUser_scalar_capabilities_dropped:
  "map_sum id roles (getCurrentUser (Some ''alice'') scalar_user_client) = Inr [JStr ''admin''] \<and>
   map_sum id capabilities (getCurrentUser (Some ''alice'') scalar_user_client) = Inr [] \<and>
   map_sum id (map roles) (listUsers scalar_user_client) = Inr [[JStr ''admin'']] \<and>
   map_sum id (map capabilities) (listUsers scalar_user_client) = Inr [[JStr ''search'']]"
  by (simp add: getCurrentUser_def listUsers_def user_of_def scalar_user_client_def scalar_user_def
      json_mode_def bindE_def or_else_def singleton_def str_or_def Let_def)

text \<open>For that user the capability list of \<^verbatim>\<open>getCurrentUser\<close> is not the wrapped scalar.\<close>

theorem getCurrentUser_scalar_capabilities_dropped_witness:
  "map_sum id capabilities (getCurrentUser (Some ''alice'') scalar_user_client)
     \<noteq> Inr [JStr ''search''] \<and>
   map_sum id (map capabilities) (listUsers scalar_user_client) = Inr [[JStr ''search'']]"
  using getCurrentUser_scalar_capabilities_dropped by simp

subsection \<open>getIndexInfo\<close>

text \<open>
  Claim C8. When the upstream answers the request for one index with a body whose
  \<open>entry\<close> is missing or is the empty array, \<^verbatim>\<open>getIndexInfo\<close> fails with the error
  \<open>Index not found:\<close> followed by the requested name.
\<close>

theorem getIndexInfo_not_found:
  assumes "client (GET (''/services/data/indexes/'' @ indexName) json_mode) = Inr (JObj members)"
    and "map_of members ''entry'' = None \<or> map_of members ''entry'' = Some (JArr [])"
  shows "getIndexInfo client indexName = Inl (Error (''Index not found: '' @ indexName))"
  using assms by (auto simp: getIndexInfo_def bindE_def)

theorem getIndexInfo_not_found_witness:
  "getIndexInfo empty_entry_client ''nonexistent'' = Inl (Error ''Index not found: nonexistent'') \<and>
   getIndexInfo no_entry_client ''nonexistent'' = Inl (Error ''Index not found: nonexistent'')"
  using getIndexInfo_not_found [of empty_entry_client "''nonexistent''" "[(''entry'', JArr [])]"]
    getIndexInfo_not_found [of no_entry_client "''nonexistent''" "[]"]
  by (simp add: empty_entry_client_def no_entry_client_def)

subsection \<open>KV store collections\<close>













end
